theory Spec2Isabelle
  imports Main
begin

section \<open>Data model\<close>

text \<open>
  The job-tracking flow of the backend: \<^verbatim>\<open>routes/videoGeneration.js\<close>,
  \<^verbatim>\<open>services/replicateService.js\<close> and the constants of \<^verbatim>\<open>config/database.js\<close>.
  Identifiers are the UUID strings of the table. A JavaScript value that may be
  \<^verbatim>\<open>undefined\<close> or \<^verbatim>\<open>null\<close> is an \<open>option\<close>.
\<close>

type_synonym uuid = string

text \<open>\<^verbatim>\<open>VIDEO_STATUS\<close> of \<^verbatim>\<open>config/database.js\<close>.\<close>

datatype video_status = PENDING | PROCESSING | COMPLETED | FAILED | CANCELLED

text \<open>The prediction object of the provider's client, with the fields the code reads.\<close>

record prediction =
  p_id :: string
  p_status :: string
  p_output :: "string option"
  p_error :: "string option"

text \<open>A row of \<^verbatim>\<open>video_generations\<close>, with the columns the handlers read or write.\<close>

record row =
  gen_id :: uuid
  user_id :: uuid
  prompt :: string
  image_url :: "string option"
  duration :: int
  aspect_ratio :: string
  resolution :: string
  status :: video_status
  external_id :: "string option"
  error_message :: "string option"
  video_url :: "string option"
  thumbnail_url :: "string option"
  output_data :: "prediction option"
  created_at :: nat
  updated_at :: nat

record user =
  u_id :: uuid
  u_email :: string
  u_name :: string

record db =
  users :: "user list"
  video_generations :: "row list"

text \<open>The body of \<^verbatim>\<open>POST /generate\<close>; \<open>None\<close> is an absent field.\<close>

record gen_body =
  b_prompt :: "string option"
  b_image :: "string option"
  b_duration :: "int option"
  b_aspect_ratio :: "string option"
  b_resolution :: "string option"

text \<open>\<^verbatim>\<open>inputData\<close>, as the route hands it to the service.\<close>

record input_data =
  i_prompt :: string
  i_image :: "string option"
  i_duration :: int
  i_aspect_ratio :: string
  i_resolution :: string

text \<open>\<^verbatim>\<open>replicateInput\<close>, the input of \<^verbatim>\<open>predictions.create\<close>.\<close>

record replicate_input =
  ri_prompt :: string
  ri_duration :: int
  ri_aspect_ratio :: string
  ri_resolution :: string
  ri_fps :: nat
  ri_camera_fixed :: bool
  ri_image :: "string option"

text \<open>The calls made to the provider's client, each with whether it returned normally.\<close>

datatype provider_call =
    PredictionsCreate string replicate_input
  | PredictionsGet string
  | PredictionsCancel string

type_synonym trace = "(provider_call \<times> bool) list"

text \<open>
  Everything a request takes from outside the process: the environment variable, the
  generated identifiers, the clock, the answers of the provider (\<open>Inl\<close> is the message of
  the error the client throws) and the error, if any, with which the store answers the
  \<open>n\<close>-th query of the request.
\<close>

record env =
  api_token :: "string option"
  uuidv4 :: uuid
  db_uuid :: uuid
  now :: nat
  db_error :: "nat \<Rightarrow> string option"
  predictions_create :: "replicate_input \<Rightarrow> string + prediction"
  predictions_get :: "nat \<Rightarrow> string \<Rightarrow> string + prediction"
  predictions_cancel :: "string \<Rightarrow> string + unit"

text \<open>A validation error of express-validator: the field and the message.\<close>

record verr =
  path :: string
  msg :: string

record status_view =
  sv_generation_id :: uuid
  sv_status :: video_status
  sv_video_url :: "string option"
  sv_thumbnail_url :: "string option"
  sv_error_message :: "string option"
  sv_created_at :: nat
  sv_updated_at :: nat

record pagination =
  pg_page :: "int option"
  pg_limit :: "int option"
  pg_total :: nat
  pg_pages :: "int option"

text \<open>The JSON bodies the handlers send.\<close>

datatype reply =
    ValidationFailed "verr list"
  | Failure string string
  | ErrorOnly string
  | Started uuid video_status
  | StatusView status_view
  | Listing "row list" pagination
  | CancelledOk uuid video_status
  | DeletedOk uuid

record response =
  code :: nat
  body :: reply

section \<open>JavaScript values\<close>

text \<open>A string is falsy when it is absent or empty.\<close>

definition truthy :: "string option \<Rightarrow> bool" where
  "truthy v = (case v of None \<Rightarrow> False | Some s \<Rightarrow> s \<noteq> [])"

text \<open>The value of a truthy string, \<open>None\<close> for a falsy one.\<close>

definition truthy_value :: "string option \<Rightarrow> string option" where
  "truthy_value v = (case v of None \<Rightarrow> None | Some s \<Rightarrow> if s = [] then None else Some s)"

text \<open>\<^verbatim>\<open>a || b\<close> on strings.\<close>

definition or_else :: "string option \<Rightarrow> string \<Rightarrow> string" where
  "or_else v d = (case v of None \<Rightarrow> d | Some s \<Rightarrow> if s = [] then d else s)"

text \<open>\<^verbatim>\<open>a || b\<close> on numbers: \<open>0\<close> is falsy.\<close>

definition or_else_num :: "int option \<Rightarrow> int \<Rightarrow> int" where
  "or_else_num v d = (case v of None \<Rightarrow> d | Some n \<Rightarrow> if n = 0 then d else n)"

definition digit_char :: "nat \<Rightarrow> char" where
  "digit_char n = char_of (48 + n)"

text \<open>The decimal numeral of a natural number.\<close>

fun dec :: "nat \<Rightarrow> string" where
  "dec n = (if n < 10 then [digit_char n] else dec (n div 10) @ [digit_char (n mod 10)])"

declare dec.simps [simp del]

text \<open>\<^verbatim>\<open>String(n)\<close> of an integer.\<close>

definition to_string :: "int \<Rightarrow> string" where
  "to_string i = (if i < 0 then CHR ''-'' # dec (nat (- i)) else dec (nat i))"

definition is_digit :: "char \<Rightarrow> bool" where
  "is_digit c = ((48::nat) \<le> of_char c \<and> of_char c \<le> (57::nat))"

definition digits_value :: "string \<Rightarrow> nat" where
  "digits_value s = foldl (\<lambda>a c. 10 * a + (of_char c - (48::nat))) (0::nat) s"

text \<open>
  \<^verbatim>\<open>Number(s)\<close> on the decimal numerals of integers; \<open>None\<close> is \<^verbatim>\<open>NaN\<close>. The empty
  string is \<open>0\<close>. Numerals with a fraction, an exponent, a radix prefix or blanks
  are not modelled: they count as \<^verbatim>\<open>NaN\<close> here.
\<close>

definition to_number :: "string \<Rightarrow> int option" where
  "to_number s =
     (case s of
        [] \<Rightarrow> Some 0
      | c # cs \<Rightarrow>
          if c = CHR ''-'' \<and> cs \<noteq> [] \<and> list_all is_digit cs then Some (- int (digits_value cs))
          else if list_all is_digit s then Some (int (digits_value s))
          else None)"

text \<open>A value that is a number or a string, as a query parameter with a default is.\<close>

datatype jsval = JNum "int option" | JStr string

definition js_number :: "jsval \<Rightarrow> int option" where
  "js_number v = (case v of JNum n \<Rightarrow> n | JStr s \<Rightarrow> to_number s)"

definition num_string :: "int option \<Rightarrow> string" where
  "num_string n = (case n of None \<Rightarrow> ''NaN'' | Some i \<Rightarrow> to_string i)"

text \<open>\<^verbatim>\<open>a - b\<close> and \<^verbatim>\<open>a * b\<close> convert both operands to numbers; \<^verbatim>\<open>NaN\<close> propagates.\<close>

definition js_minus :: "jsval \<Rightarrow> jsval \<Rightarrow> int option" where
  "js_minus a b =
     (case (js_number a, js_number b) of (Some x, Some y) \<Rightarrow> Some (x - y) | _ \<Rightarrow> None)"

definition js_times :: "jsval \<Rightarrow> jsval \<Rightarrow> int option" where
  "js_times a b =
     (case (js_number a, js_number b) of (Some x, Some y) \<Rightarrow> Some (x * y) | _ \<Rightarrow> None)"

text \<open>\<^verbatim>\<open>a + b\<close> with a number on the left: concatenation as soon as \<open>b\<close> is a string.\<close>

definition js_plus :: "int option \<Rightarrow> jsval \<Rightarrow> jsval" where
  "js_plus a b =
     (case b of
        JStr s \<Rightarrow> JStr (num_string a @ s)
      | JNum y \<Rightarrow> JNum (case (a, y) of (Some x, Some z) \<Rightarrow> Some (x + z) | _ \<Rightarrow> None))"

text \<open>
  \<^verbatim>\<open>Math.ceil(count / limit)\<close>; \<open>None\<close> is a result that is not a finite number
  (\<^verbatim>\<open>NaN\<close> or an infinity, both \<^verbatim>\<open>null\<close> in JSON).
\<close>

definition ceil_div :: "nat \<Rightarrow> jsval \<Rightarrow> int option" where
  "ceil_div c l =
     (case js_number l of
        None \<Rightarrow> None
      | Some y \<Rightarrow> if y = 0 then None else Some (- ((- int c) div y)))"

section \<open>The store\<close>

text \<open>
  The store is the database behind the Supabase client: the tables \<^verbatim>\<open>users\<close> and
  \<^verbatim>\<open>video_generations\<close>, each the list of its rows in the order of insertion, with
  the queries the handlers issue. The client never throws: each query answers with
  data or with an error. The first argument of each operation is the error the store
  answers with when it cannot serve the query (\<open>None\<close> when it can).
\<close>

definition upsert_user :: "string option \<Rightarrow> user \<Rightarrow> db \<Rightarrow> string option \<times> db" where
  "upsert_user fault u d =
     (case fault of
        Some e \<Rightarrow> (Some e, d)
      | None \<Rightarrow>
          if u_id u \<in> u_id ` set (users d)
          then (None, d\<lparr>users := map (\<lambda>v. if u_id v = u_id u then u else v) (users d)\<rparr>)
          else (None, d\<lparr>users := users d @ [u]\<rparr>))"

text \<open>
  \<^verbatim>\<open>insert(...).select().single()\<close>: the primary key is unique and the user must
  exist (the foreign key the route's comment speaks of).
\<close>

definition insert_generation :: "string option \<Rightarrow> row \<Rightarrow> db \<Rightarrow> string + (row \<times> db)" where
  "insert_generation fault r d =
     (case fault of
        Some e \<Rightarrow> Inl e
      | None \<Rightarrow>
          if gen_id r \<in> gen_id ` set (video_generations d)
          then Inl ''duplicate key value violates unique constraint''
          else if user_id r \<notin> u_id ` set (users d)
          then Inl ''insert or update on table violates foreign key constraint''
          else Inr (r, d\<lparr>video_generations := video_generations d @ [r]\<rparr>))"

text \<open>\<^verbatim>\<open>select('*').eq('id', i).single()\<close>: an error unless exactly one row matches.\<close>

definition select_single :: "string option \<Rightarrow> uuid \<Rightarrow> db \<Rightarrow> string + row" where
  "select_single fault i d =
     (case fault of
        Some e \<Rightarrow> Inl e
      | None \<Rightarrow>
          (case filter (\<lambda>r. gen_id r = i) (video_generations d) of
             [r] \<Rightarrow> Inr r
           | _ \<Rightarrow> Inl ''JSON object requested, multiple (or no) rows returned''))"

text \<open>\<^verbatim>\<open>update(f).eq('id', i)\<close>: \<open>f\<close> sets the columns named in the call.\<close>

definition update_generation ::
  "string option \<Rightarrow> uuid \<Rightarrow> (row \<Rightarrow> row) \<Rightarrow> db \<Rightarrow> string option \<times> db" where
  "update_generation fault i f d =
     (case fault of
        Some e \<Rightarrow> (Some e, d)
      | None \<Rightarrow>
          (None, d\<lparr>video_generations :=
                     map (\<lambda>r. if gen_id r = i then f r else r) (video_generations d)\<rparr>))"

definition delete_generation :: "string option \<Rightarrow> uuid \<Rightarrow> db \<Rightarrow> string option \<times> db" where
  "delete_generation fault i d =
     (case fault of
        Some e \<Rightarrow> (Some e, d)
      | None \<Rightarrow>
          (None, d\<lparr>video_generations := filter (\<lambda>r. gen_id r \<noteq> i) (video_generations d)\<rparr>))"

text \<open>
  \<^verbatim>\<open>select('*', {count: 'exact'}).order('created_at', {ascending: false}).range(from, to)\<close>:
  the rows at positions \<open>from\<close> to \<open>to\<close> of the ordering, and the count of all rows.
  Rows created at the same time come the later inserted first. A range that is not
  a pair of numbers \<open>0 \<le> from \<le> to\<close> is answered with an error.
\<close>

definition by_created_desc :: "row list \<Rightarrow> row list" where
  "by_created_desc rs = rev (sort_key created_at rs)"

definition select_range ::
  "string option \<Rightarrow> int option \<Rightarrow> int option \<Rightarrow> db \<Rightarrow> string + (row list \<times> nat)" where
  "select_range fault from to d =
     (case fault of
        Some e \<Rightarrow> Inl e
      | None \<Rightarrow>
          (case (from, to) of
             (Some a, Some b) \<Rightarrow>
               if 0 \<le> a \<and> a \<le> b
               then Inr (take (nat (b - a + 1)) (drop (nat a) (by_created_desc (video_generations d))),
                         length (video_generations d))
               else Inl ''Requested range not satisfiable''
           | _ \<Rightarrow> Inl ''Requested range not satisfiable''))"

section \<open>Validation\<close>

text \<open>
  \<^verbatim>\<open>validateVideoGeneration\<close>: five validation chains run on the body, each adding
  its errors to the result; no chain stops the others. \<^verbatim>\<open>trim\<close> removes white
  space at both ends, and the trimmed prompt replaces the one of the request.
\<close>

definition is_space :: "char \<Rightarrow> bool" where
  "is_space c = (of_char c \<in> {9, 10, 11, 12, 13, 32 :: nat})"

definition trim :: "string \<Rightarrow> string" where
  "trim s = rev (dropWhile is_space (rev (dropWhile is_space s)))"

definition SUPPORTED_DURATIONS :: "int list" where
  "SUPPORTED_DURATIONS = [5, 10]"

definition SUPPORTED_ASPECT_RATIOS :: "string list" where
  "SUPPORTED_ASPECT_RATIOS = [''16:9'', ''9:16'', ''1:1'', ''4:3'', ''3:4'', ''21:9'', ''9:21'']"

definition RESOLUTIONS :: "string list" where
  "RESOLUTIONS = [''480p'', ''720p'', ''1080p'']"

fun join :: "string \<Rightarrow> string list \<Rightarrow> string" where
  "join sep [] = []"
| "join sep [x] = x"
| "join sep (x # y # ys) = x @ sep @ join sep (y # ys)"

text \<open>The prompt after \<^verbatim>\<open>trim()\<close>; an absent value is the empty string there.\<close>

definition sanitize_prompt :: "string option \<Rightarrow> string" where
  "sanitize_prompt v = trim (case v of None \<Rightarrow> [] | Some p \<Rightarrow> p)"

text \<open>\<^verbatim>\<open>isString()\<close> has the default message, \<^verbatim>\<open>isLength\<close> the one given.\<close>

definition check_prompt :: "string option \<Rightarrow> verr list" where
  "check_prompt v =
     (if v = None then [\<lparr>path = ''prompt'', msg = ''Invalid value''\<rparr>] else []) @
     (if 1 \<le> length (sanitize_prompt v) \<and> length (sanitize_prompt v) \<le> 1000 then []
      else [\<lparr>path = ''prompt'', msg = ''Prompt must be between 1 and 1000 characters''\<rparr>])"

definition check_duration :: "int option \<Rightarrow> verr list" where
  "check_duration v =
     (case v of
        None \<Rightarrow> []
      | Some n \<Rightarrow>
          if n \<in> set SUPPORTED_DURATIONS then []
          else [\<lparr>path = ''duration'',
                 msg = ''Duration must be one of: '' @ join '', '' (map to_string SUPPORTED_DURATIONS)\<rparr>])"

definition check_aspect_ratio :: "string option \<Rightarrow> verr list" where
  "check_aspect_ratio v =
     (case v of
        None \<Rightarrow> []
      | Some a \<Rightarrow>
          if a \<in> set SUPPORTED_ASPECT_RATIOS then []
          else [\<lparr>path = ''aspect_ratio'',
                 msg = ''Aspect ratio must be one of: '' @ join '', '' SUPPORTED_ASPECT_RATIOS\<rparr>])"

definition check_resolution :: "string option \<Rightarrow> verr list" where
  "check_resolution v =
     (case v of
        None \<Rightarrow> []
      | Some r \<Rightarrow>
          if r \<in> set RESOLUTIONS then []
          else [\<lparr>path = ''resolution'', msg = ''Resolution must be 480p, 720p, or 1080p''\<rparr>])"

text \<open>The image of a body of this type is a string whenever it is present.\<close>

definition check_image :: "string option \<Rightarrow> verr list" where
  "check_image v = []"

definition validateVideoGeneration :: "gen_body \<Rightarrow> verr list" where
  "validateVideoGeneration b =
     check_prompt (b_prompt b) @ check_duration (b_duration b) @
     check_aspect_ratio (b_aspect_ratio b) @ check_resolution (b_resolution b) @
     check_image (b_image b)"

section \<open>The service\<close>

definition getReplicateClient :: "env \<Rightarrow> string + unit" where
  "getReplicateClient e =
     (if truthy (api_token e) then Inr ()
      else Inl ''REPLICATE_API_TOKEN environment variable is required'')"

definition replicate_model :: string where
  "replicate_model = ''bytedance/seedance-1-lite''"

definition replicateInput :: "input_data \<Rightarrow> replicate_input" where
  "replicateInput i =
     \<lparr>ri_prompt = or_else (Some (i_prompt i)) ''Generate a video'',
      ri_duration = or_else_num (Some (i_duration i)) 5,
      ri_aspect_ratio = or_else (Some (i_aspect_ratio i)) ''16:9'',
      ri_resolution = or_else (Some (i_resolution i)) ''720p'',
      ri_fps = 24,
      ri_camera_fixed = False,
      ri_image = (if truthy (i_image i) then i_image i else None)\<rparr>"

text \<open>
  \<^verbatim>\<open>startVideoGeneration\<close>: the \<^verbatim>\<open>try\<close> block obtains the client and creates the
  prediction; what it throws is caught, written to the row and thrown again.
  Its update is the third query of the request.
\<close>

definition create_prediction :: "env \<Rightarrow> replicate_input \<Rightarrow> (string + prediction) \<times> trace" where
  "create_prediction e inp =
     (case getReplicateClient e of
        Inl m \<Rightarrow> (Inl m, [])
      | Inr _ \<Rightarrow>
          (case predictions_create e inp of
             Inl m \<Rightarrow> (Inl m, [(PredictionsCreate replicate_model inp, False)])
           | Inr p \<Rightarrow> (Inr p, [(PredictionsCreate replicate_model inp, True)])))"

definition startVideoGeneration ::
  "env \<Rightarrow> input_data \<Rightarrow> uuid \<Rightarrow> db \<Rightarrow> (string + prediction) \<times> db \<times> trace" where
  "startVideoGeneration e inputData executionId d =
     (case create_prediction e (replicateInput inputData) of
        (Inr p, t) \<Rightarrow>
          (Inr p,
           snd (update_generation (db_error e 2) executionId
                  (\<lambda>r. r\<lparr>external_id := Some (p_id p), status := PROCESSING\<rparr>) d),
           t)
      | (Inl m, t) \<Rightarrow>
          (Inl m,
           snd (update_generation (db_error e 2) executionId
                  (\<lambda>r. r\<lparr>status := FAILED, error_message := Some m\<rparr>) d),
           t))"

text \<open>\<^verbatim>\<open>checkGenerationStatus\<close>; \<open>k\<close> numbers the \<^verbatim>\<open>predictions.get\<close> of the request.\<close>

definition checkGenerationStatus :: "env \<Rightarrow> nat \<Rightarrow> string \<Rightarrow> (string + prediction) \<times> trace" where
  "checkGenerationStatus e k predictionId =
     (case getReplicateClient e of
        Inl m \<Rightarrow> (Inl m, [])
      | Inr _ \<Rightarrow>
          (case predictions_get e k predictionId of
             Inl m \<Rightarrow> (Inl m, [(PredictionsGet predictionId, False)])
           | Inr p \<Rightarrow> (Inr p, [(PredictionsGet predictionId, True)])))"

definition getGeneratedVideo :: "env \<Rightarrow> nat \<Rightarrow> string \<Rightarrow> (string + string) \<times> trace" where
  "getGeneratedVideo e k predictionId =
     (case getReplicateClient e of
        Inl m \<Rightarrow> (Inl m, [])
      | Inr _ \<Rightarrow>
          (case predictions_get e k predictionId of
             Inl m \<Rightarrow> (Inl m, [(PredictionsGet predictionId, False)])
           | Inr p \<Rightarrow>
               (case (if p_status p = ''succeeded'' then truthy_value (p_output p) else None) of
                  Some u \<Rightarrow> Inr u
                | None \<Rightarrow>
                    if p_status p = ''failed''
                    then Inl (''Generation failed: '' @ or_else (p_error p) ''Unknown error'')
                    else Inl (''Video not ready. Status: '' @ p_status p),
                [(PredictionsGet predictionId, True)])))"

text \<open>\<^verbatim>\<open>cancelGeneration\<close> answers \<^verbatim>\<open>false\<close> instead of throwing.\<close>

definition cancelGeneration :: "env \<Rightarrow> string \<Rightarrow> bool \<times> trace" where
  "cancelGeneration e predictionId =
     (case getReplicateClient e of
        Inl m \<Rightarrow> (False, [])
      | Inr _ \<Rightarrow>
          (case predictions_cancel e predictionId of
             Inl m \<Rightarrow> (False, [(PredictionsCancel predictionId, False)])
           | Inr _ \<Rightarrow> (True, [(PredictionsCancel predictionId, True)])))"

section \<open>The routes\<close>

text \<open>
  Each handler takes the environment of the request and the store, and gives the
  response, the store afterwards and the calls made to the provider. A request is
  handled as a whole: no other request runs between two of its queries. The outer
  \<^verbatim>\<open>try\<close>/\<^verbatim>\<open>catch\<close> of each handler has nothing to catch here: the store answers with
  error values, and the service's exceptions are caught inside.
\<close>

text \<open>\<^verbatim>\<open>router.post('/generate')\<close>\<close>

definition new_row :: "env \<Rightarrow> gen_body \<Rightarrow> row" where
  "new_row e b =
     \<lparr>gen_id = db_uuid e,
      user_id = uuidv4 e,
      prompt = sanitize_prompt (b_prompt b),
      image_url = b_image b,
      duration = or_else_num (b_duration b) 5,
      aspect_ratio = or_else (b_aspect_ratio b) ''16:9'',
      resolution = or_else (b_resolution b) ''720p'',
      status = PENDING,
      external_id = None,
      error_message = None,
      video_url = None,
      thumbnail_url = None,
      output_data = None,
      created_at = now e,
      updated_at = now e\<rparr>"

definition inputData :: "gen_body \<Rightarrow> input_data" where
  "inputData b =
     \<lparr>i_prompt = sanitize_prompt (b_prompt b),
      i_image = b_image b,
      i_duration = or_else_num (b_duration b) 5,
      i_aspect_ratio = or_else (b_aspect_ratio b) ''16:9'',
      i_resolution = or_else (b_resolution b) ''720p''\<rparr>"

definition temp_user :: "env \<Rightarrow> user" where
  "temp_user e =
     \<lparr>u_id = uuidv4 e,
      u_email = ''temp_'' @ dec (now e) @ ''@example.com'',
      u_name = ''Temporary User''\<rparr>"

definition generate :: "env \<Rightarrow> gen_body \<Rightarrow> db \<Rightarrow> response \<times> db \<times> trace" where
  "generate e b d =
     (let errors = validateVideoGeneration b in
      if errors \<noteq> [] then (\<lparr>code = 400, body = ValidationFailed errors\<rparr>, d, [])
      else
        (case upsert_user (db_error e 0) (temp_user e) d of
           (Some m, d1) \<Rightarrow>
             (\<lparr>code = 500, body = Failure ''Failed to create temporary user'' m\<rparr>, d1, [])
         | (None, d1) \<Rightarrow>
             (case insert_generation (db_error e 1) (new_row e b) d1 of
                Inl m \<Rightarrow>
                  (\<lparr>code = 500, body = Failure ''Failed to create video generation record'' m\<rparr>,
                   d1, [])
              | Inr (generation, d2) \<Rightarrow>
                  (case startVideoGeneration e (inputData b) (gen_id generation) d2 of
                     (Inr p, d3, t) \<Rightarrow>
                       (\<lparr>code = 201, body = Started (gen_id generation) PROCESSING\<rparr>, d3, t)
                   | (Inl m, d3, t) \<Rightarrow>
                       (\<lparr>code = 500, body = Failure ''Failed to start video generation'' m\<rparr>,
                        snd (update_generation (db_error e 3) (gen_id generation)
                               (\<lambda>r. r\<lparr>status := FAILED, error_message := Some m\<rparr>) d3),
                        t)))))"

text \<open>\<^verbatim>\<open>router.get('/status/:generationId')\<close>\<close>

definition view :: "row \<Rightarrow> status_view" where
  "view g =
     \<lparr>sv_generation_id = gen_id g,
      sv_status = status g,
      sv_video_url = video_url g,
      sv_thumbnail_url = thumbnail_url g,
      sv_error_message = error_message g,
      sv_created_at = created_at g,
      sv_updated_at = updated_at g\<rparr>"

text \<open>
  The reconciliation of a processing row: the store afterwards, the local copy
  \<^verbatim>\<open>generation\<close> as the response will show it, and the provider calls. An error
  thrown by either service call leaves both as they were.
\<close>

definition reconcile :: "env \<Rightarrow> uuid \<Rightarrow> row \<Rightarrow> string \<Rightarrow> db \<Rightarrow> db \<times> row \<times> trace" where
  "reconcile e generationId generation ext d =
     (case checkGenerationStatus e 0 ext of
        (Inl statusError, t) \<Rightarrow> (d, generation, t)
      | (Inr replicateStatus, t) \<Rightarrow>
          if p_status replicateStatus = ''succeeded'' then
            (case getGeneratedVideo e 1 ext of
               (Inl statusError, t') \<Rightarrow> (d, generation, t @ t')
             | (Inr videoUrl, t') \<Rightarrow>
                 (snd (update_generation (db_error e 1) generationId
                         (\<lambda>r. r\<lparr>status := COMPLETED, video_url := Some videoUrl,
                                output_data := Some replicateStatus\<rparr>) d),
                  generation\<lparr>status := COMPLETED, video_url := Some videoUrl\<rparr>,
                  t @ t'))
          else if p_status replicateStatus = ''failed'' then
            (snd (update_generation (db_error e 1) generationId
                    (\<lambda>r. r\<lparr>status := FAILED,
                           error_message := Some (or_else (p_error replicateStatus) ''Generation failed'')\<rparr>) d),
             generation\<lparr>status := FAILED\<rparr>,
             t)
          else (d, generation, t))"

definition get_status :: "env \<Rightarrow> uuid \<Rightarrow> db \<Rightarrow> response \<times> db \<times> trace" where
  "get_status e generationId d =
     (case select_single (db_error e 0) generationId d of
        Inl fetchError \<Rightarrow> (\<lparr>code = 404, body = ErrorOnly ''Video generation not found''\<rparr>, d, [])
      | Inr generation \<Rightarrow>
          (case (if status generation = PROCESSING then truthy_value (external_id generation)
                 else None) of
             Some ext \<Rightarrow>
               (case reconcile e generationId generation ext d of
                  (d', generation', t) \<Rightarrow>
                    (\<lparr>code = 200, body = StatusView (view generation')\<rparr>, d', t))
           | None \<Rightarrow> (\<lparr>code = 200, body = StatusView (view generation)\<rparr>, d, [])))"

text \<open>\<^verbatim>\<open>router.get('/list')\<close>\<close>

record list_query =
  q_page :: "string option"
  q_limit :: "string option"

text \<open>\<^verbatim>\<open>parseInt\<close> on decimal numerals; the empty string is \<^verbatim>\<open>NaN\<close>.\<close>

definition parse_int :: "jsval \<Rightarrow> int option" where
  "parse_int v = (case v of JNum n \<Rightarrow> n | JStr s \<Rightarrow> if s = [] then None else to_number s)"

definition list_generations :: "env \<Rightarrow> list_query \<Rightarrow> db \<Rightarrow> response \<times> db \<times> trace" where
  "list_generations e q d =
     (let page = (case q_page q of None \<Rightarrow> JNum (Some 1) | Some s \<Rightarrow> JStr s);
          limit = (case q_limit q of None \<Rightarrow> JNum (Some 10) | Some s \<Rightarrow> JStr s);
          offset = js_times (JNum (js_minus page (JNum (Some 1)))) limit
      in case select_range (db_error e 0) offset
                (js_minus (js_plus offset limit) (JNum (Some 1))) d of
           Inl fetchError \<Rightarrow>
             (\<lparr>code = 500, body = ErrorOnly ''Failed to fetch video generations''\<rparr>, d, [])
         | Inr (generations, count) \<Rightarrow>
             (\<lparr>code = 200,
               body = Listing generations
                        \<lparr>pg_page = parse_int page, pg_limit = parse_int limit,
                         pg_total = count, pg_pages = ceil_div count limit\<rparr>\<rparr>,
              d, []))"

text \<open>\<^verbatim>\<open>router.post('/cancel/:generationId')\<close>\<close>

definition cancel :: "env \<Rightarrow> uuid \<Rightarrow> db \<Rightarrow> response \<times> db \<times> trace" where
  "cancel e generationId d =
     (case select_single (db_error e 0) generationId d of
        Inl fetchError \<Rightarrow> (\<lparr>code = 404, body = ErrorOnly ''Video generation not found''\<rparr>, d, [])
      | Inr generation \<Rightarrow>
          if status generation \<noteq> PROCESSING
          then (\<lparr>code = 400, body = ErrorOnly ''Can only cancel processing generations''\<rparr>, d, [])
          else
            (let t = (case truthy_value (external_id generation) of
                        Some ext \<Rightarrow> snd (cancelGeneration e ext)
                      | None \<Rightarrow> [])
             in case update_generation (db_error e 1) generationId
                       (\<lambda>r. r\<lparr>status := CANCELLED\<rparr>) d of
                  (Some updateError, d') \<Rightarrow>
                    (\<lparr>code = 500, body = ErrorOnly ''Failed to cancel generation''\<rparr>, d', t)
                | (None, d') \<Rightarrow>
                    (\<lparr>code = 200, body = CancelledOk generationId CANCELLED\<rparr>, d', t)))"

text \<open>\<^verbatim>\<open>router.delete('/:generationId')\<close>\<close>

definition delete :: "env \<Rightarrow> uuid \<Rightarrow> db \<Rightarrow> response \<times> db \<times> trace" where
  "delete e generationId d =
     (case select_single (db_error e 0) generationId d of
        Inl fetchError \<Rightarrow> (\<lparr>code = 404, body = ErrorOnly ''Video generation not found''\<rparr>, d, [])
      | Inr generation \<Rightarrow>
          (case delete_generation (db_error e 1) generationId d of
             (Some deleteError, d') \<Rightarrow>
               (\<lparr>code = 500, body = ErrorOnly ''Failed to delete video generation''\<rparr>, d', [])
           | (None, d') \<Rightarrow> (\<lparr>code = 200, body = DeletedOk generationId\<rparr>, d', [])))"

text \<open>The public operations of the job flow.\<close>

datatype request =
    Generate gen_body
  | GetStatus uuid
  | ListAll list_query
  | Cancel uuid
  | Delete uuid

fun handle :: "env \<Rightarrow> request \<Rightarrow> db \<Rightarrow> response \<times> db \<times> trace" where
  "handle e (Generate b) d = generate e b d"
| "handle e (GetStatus i) d = get_status e i d"
| "handle e (ListAll q) d = list_generations e q d"
| "handle e (Cancel i) d = cancel e i d"
| "handle e (Delete i) d = delete e i d"

text \<open>A sequence of requests, one handled after the other, each in its environment.\<close>

fun run :: "(env \<times> request) list \<Rightarrow> db \<Rightarrow> db" where
  "run [] d = d"
| "run ((e, req) # ops) d = run ops (fst (snd (handle e req d)))"

section \<open>Jobs in the store, and the states the operations reach\<close>

text \<open>The rows of the table with a given identifier; a job is stored when it is the one row.\<close>

definition rows_with :: "db \<Rightarrow> uuid \<Rightarrow> row list" where
  "rows_with d i = filter (\<lambda>r. gen_id r = i) (video_generations d)"

definition stored :: "db \<Rightarrow> uuid \<Rightarrow> row \<Rightarrow> bool" where
  "stored d i g = (rows_with d i = [g])"


text \<open>The store serves every query of the request.\<close>

definition store_ok :: "env \<Rightarrow> bool" where
  "store_ok e =
     (db_error e 0 = None \<and> db_error e 1 = None \<and> db_error e 2 = None \<and> db_error e 3 = None)"




definition empty_db :: db where
  "empty_db = \<lparr>users = [], video_generations = []\<rparr>"




section \<open>Sample requests\<close>

definition sample_prediction :: prediction where
  "sample_prediction =
     \<lparr>p_id = ''pred-1'', p_status = ''starting'', p_output = None, p_error = None\<rparr>"

definition succeeded_prediction :: prediction where
  "succeeded_prediction =
     \<lparr>p_id = ''pred-1'', p_status = ''succeeded'',
      p_output = Some ''https://x/video.mp4'', p_error = None\<rparr>"

text \<open>An environment in which the store and the provider both answer.\<close>

definition sample_env :: env where
  "sample_env =
     \<lparr>api_token = Some ''r8_token'',
      uuidv4 = ''user-1'',
      db_uuid = ''job-1'',
      now = 1700000000,
      db_error = (\<lambda>k. None),
      predictions_create = (\<lambda>inp. Inr sample_prediction),
      predictions_get = (\<lambda>k i. Inr succeeded_prediction),
      predictions_cancel = (\<lambda>i. Inr ())\<rparr>"





definition cancel_timeout_env :: env where
  "cancel_timeout_env = sample_env\<lparr>predictions_cancel := \<lambda>i. Inl ''timeout''\<rparr>"

definition sample_body :: gen_body where
  "sample_body =
     \<lparr>b_prompt = Some ''A cat in the rain'', b_image = None, b_duration = Some 10,
      b_aspect_ratio = Some ''9:16'', b_resolution = Some ''1080p''\<rparr>"

definition sample_row :: "video_status \<Rightarrow> string option \<Rightarrow> row" where
  "sample_row s ext = (new_row sample_env sample_body)\<lparr>status := s, external_id := ext\<rparr>"

definition sample_db :: "video_status \<Rightarrow> string option \<Rightarrow> db" where
  "sample_db s ext =
     \<lparr>users = [temp_user sample_env], video_generations = [sample_row s ext]\<rparr>"




text \<open>Three jobs, created one after the other.\<close>

definition job :: "uuid \<Rightarrow> nat \<Rightarrow> row" where
  "job i t = (new_row sample_env sample_body)\<lparr>gen_id := i, created_at := t, updated_at := t\<rparr>"

definition three_jobs_db :: db where
  "three_jobs_db =
     \<lparr>users = [temp_user sample_env],
      video_generations = [job ''job-1'' 1, job ''job-2'' 2, job ''job-3'' 3]\<rparr>"

section \<open>What an operation leaves untouched\<close>

lemma select_single_stored:
  "stored d i g \<Longrightarrow> select_single f i d = (case f of Some m \<Rightarrow> Inl m | None \<Rightarrow> Inr g)"
  by (simp add: stored_def rows_with_def select_single_def split: option.splits)








lemma cancel_not_processing:
  assumes "stored d i g" and "status g \<noteq> PROCESSING"
  shows "cancel e i d =
           (case db_error e 0 of
              Some m \<Rightarrow> (\<lparr>code = 404, body = ErrorOnly ''Video generation not found''\<rparr>, d, [])
            | None \<Rightarrow> (\<lparr>code = 400, body = ErrorOnly ''Can only cancel processing generations''\<rparr>, d, []))"
  using assms
  by (auto simp: cancel_def select_single_stored split: option.splits)










section \<open>Terminal states\<close>



section \<open>Submission\<close>

lemma map_update_fresh:
  "j \<notin> gen_id ` set xs \<Longrightarrow> map (\<lambda>r. if gen_id r = j then f r else r) xs = xs"
  by (induction xs) auto

lemma upsert_user_ok:
  "upsert_user None u d = (ue, d1) \<Longrightarrow>
   ue = None \<and> video_generations d1 = video_generations d \<and> u_id u \<in> u_id ` set (users d1)"
  by (auto simp: upsert_user_def split: if_splits)

lemma valid_duration:
  "validateVideoGeneration b = [] \<Longrightarrow>
   or_else_num (b_duration b) 5 = (case b_duration b of None \<Rightarrow> 5 | Some n \<Rightarrow> n)"
  by (auto simp: validateVideoGeneration_def check_duration_def or_else_num_def SUPPORTED_DURATIONS_def
           split: option.splits if_splits)

lemma valid_aspect_ratio:
  "validateVideoGeneration b = [] \<Longrightarrow>
   or_else (b_aspect_ratio b) ''16:9'' = (case b_aspect_ratio b of None \<Rightarrow> ''16:9'' | Some a \<Rightarrow> a)"
  by (auto simp: validateVideoGeneration_def check_aspect_ratio_def or_else_def SUPPORTED_ASPECT_RATIOS_def
           split: option.splits if_splits)

lemma valid_resolution:
  "validateVideoGeneration b = [] \<Longrightarrow>
   or_else (b_resolution b) ''720p'' = (case b_resolution b of None \<Rightarrow> ''720p'' | Some a \<Rightarrow> a)"
  by (auto simp: validateVideoGeneration_def check_resolution_def or_else_def RESOLUTIONS_def
           split: option.splits if_splits)

lemma valid_prompt:
  "validateVideoGeneration b = [] \<Longrightarrow>
   b_prompt b \<noteq> None \<and> sanitize_prompt (b_prompt b) \<noteq> [] \<and> length (sanitize_prompt (b_prompt b)) \<le> 1000"
  by (auto simp: validateVideoGeneration_def check_prompt_def split: if_splits)

lemma valid_durations_nonzero:
  "validateVideoGeneration b = [] \<Longrightarrow> or_else_num (b_duration b) 5 \<noteq> 0"
  by (auto simp: validateVideoGeneration_def check_duration_def or_else_num_def SUPPORTED_DURATIONS_def
           split: option.splits if_splits)

lemma valid_strings_nonempty:
  "validateVideoGeneration b = [] \<Longrightarrow>
   or_else (b_aspect_ratio b) ''16:9'' \<noteq> [] \<and> or_else (b_resolution b) ''720p'' \<noteq> []"
  by (auto simp: or_else_def split: option.splits)

lemma replicateInput_valid:
  assumes "validateVideoGeneration b = []"
  shows "replicateInput (inputData b) =
           \<lparr>ri_prompt = sanitize_prompt (b_prompt b),
            ri_duration = (case b_duration b of None \<Rightarrow> 5 | Some n \<Rightarrow> n),
            ri_aspect_ratio = (case b_aspect_ratio b of None \<Rightarrow> ''16:9'' | Some a \<Rightarrow> a),
            ri_resolution = (case b_resolution b of None \<Rightarrow> ''720p'' | Some r \<Rightarrow> r),
            ri_fps = 24, ri_camera_fixed = False, ri_image = truthy_value (b_image b)\<rparr>"
proof -
  have p: "or_else (Some (sanitize_prompt (b_prompt b))) ''Generate a video'' = sanitize_prompt (b_prompt b)"
    using valid_prompt[OF assms] by (simp add: or_else_def)
  have d: "or_else_num (Some (or_else_num (b_duration b) 5)) 5 = or_else_num (b_duration b) 5"
    using valid_durations_nonzero[OF assms] by (simp add: or_else_num_def)
  have a: "or_else (Some (or_else (b_aspect_ratio b) ''16:9'')) ''16:9'' = or_else (b_aspect_ratio b) ''16:9''"
    and r: "or_else (Some (or_else (b_resolution b) ''720p'')) ''720p'' = or_else (b_resolution b) ''720p''"
    by (auto simp: or_else_def split: option.splits)
  have i: "(if truthy (b_image b) then b_image b else None) = truthy_value (b_image b)"
    by (auto simp: truthy_def truthy_value_def split: option.splits)
  have "replicateInput (inputData b) =
           \<lparr>ri_prompt = sanitize_prompt (b_prompt b),
            ri_duration = or_else_num (b_duration b) 5,
            ri_aspect_ratio = or_else (b_aspect_ratio b) ''16:9'',
            ri_resolution = or_else (b_resolution b) ''720p'',
            ri_fps = 24, ri_camera_fixed = False, ri_image = truthy_value (b_image b)\<rparr>"
    unfolding replicateInput_def inputData_def
    by (auto simp: p d a r truthy_def truthy_value_def split: option.splits)
  then show ?thesis
    by (simp add: valid_duration[OF assms] valid_aspect_ratio[OF assms] valid_resolution[OF assms])
qed

lemma generate_run:
  assumes valid: "validateVideoGeneration b = []" and ok: "store_ok e"
    and fresh: "db_uuid e \<notin> gen_id ` set (video_generations d)"
  shows "generate e b d =
     (case create_prediction e (replicateInput (inputData b)) of
        (Inr p, t) \<Rightarrow>
          (\<lparr>code = 201, body = Started (db_uuid e) PROCESSING\<rparr>,
           (fst (snd (generate e b d))), t)
      | (Inl m, t) \<Rightarrow>
          (\<lparr>code = 500, body = Failure ''Failed to start video generation'' m\<rparr>,
           (fst (snd (generate e b d))), t))"
    and "video_generations (fst (snd (generate e b d))) =
     video_generations d @
       [case fst (create_prediction e (replicateInput (inputData b))) of
          Inr p \<Rightarrow> (new_row e b)\<lparr>external_id := Some (p_id p), status := PROCESSING\<rparr>
        | Inl m \<Rightarrow> (new_row e b)\<lparr>status := FAILED, error_message := Some m\<rparr>]"
proof -
  have e0: "db_error e 0 = None" and e1: "db_error e (Suc 0) = None"
    and e2: "db_error e 2 = None" and e3: "db_error e 3 = None"
    using ok by (simp_all add: store_ok_def)
  obtain ue d1 where u: "upsert_user None (temp_user e) d = (ue, d1)"
    by (cases "upsert_user None (temp_user e) d")
  from upsert_user_ok[OF u] have ue: "ue = None" and v1: "video_generations d1 = video_generations d"
    and us: "uuidv4 e \<in> u_id ` set (users d1)" by (simp_all add: temp_user_def)
  have id: "gen_id (new_row e b) = db_uuid e" and uid: "user_id (new_row e b) = uuidv4 e"
    by (simp_all add: new_row_def)
  have ins: "insert_generation None (new_row e b) d1 =
       Inr (new_row e b, d1\<lparr>video_generations := video_generations d @ [new_row e b]\<rparr>)"
    using fresh us v1 by (simp add: insert_generation_def id uid)
  have m: "map (\<lambda>r. if gen_id r = db_uuid e then f r else r) (video_generations d) = video_generations d" for f
    using map_update_fresh[OF fresh] by simp
  show "generate e b d =
     (case create_prediction e (replicateInput (inputData b)) of
        (Inr p, t) \<Rightarrow>
          (\<lparr>code = 201, body = Started (db_uuid e) PROCESSING\<rparr>,
           (fst (snd (generate e b d))), t)
      | (Inl m, t) \<Rightarrow>
          (\<lparr>code = 500, body = Failure ''Failed to start video generation'' m\<rparr>,
           (fst (snd (generate e b d))), t))"
    using valid u ue ins
    by (simp add: generate_def e0 e1 e2 e3 startVideoGeneration_def id split: prod.splits sum.splits)
  show "video_generations (fst (snd (generate e b d))) =
     video_generations d @
       [case fst (create_prediction e (replicateInput (inputData b))) of
          Inr p \<Rightarrow> (new_row e b)\<lparr>external_id := Some (p_id p), status := PROCESSING\<rparr>
        | Inl m \<Rightarrow> (new_row e b)\<lparr>status := FAILED, error_message := Some m\<rparr>]"
    using valid u ue ins
    by (simp add: generate_def e0 e1 e2 e3 startVideoGeneration_def update_generation_def id m
             split: prod.splits sum.splits)
qed

lemmas sample_defs =
  sample_env_def sample_body_def sample_prediction_def succeeded_prediction_def
  sample_row_def sample_db_def empty_db_def new_row_def temp_user_def inputData_def replicateInput_def

lemma sample_body_valid: "validateVideoGeneration sample_body = []"
  by (simp add: validateVideoGeneration_def check_prompt_def check_duration_def check_aspect_ratio_def
        check_resolution_def check_image_def sample_body_def sanitize_prompt_def trim_def is_space_def
        SUPPORTED_DURATIONS_def SUPPORTED_ASPECT_RATIOS_def RESOLUTIONS_def)

text \<open>
  Claim C2. A valid submission that the provider accepts, the store answering and
  the identifier of the new row being fresh, is answered with status 201, the
  identifier of the job and the status \<open>processing\<close>; the row added to the table has
  the identifier the provider returned and the status \<open>processing\<close>; it holds the
  submitted duration, aspect ratio and resolution, or \<open>5\<close>, \<open>16:9\<close> and \<open>720p\<close> where
  one is omitted; the one call to the provider carries these, the frame rate 24,
  the camera flag \<open>false\<close>, and the image when the body has a non-empty one.
\<close>

theorem accepted_submission_is_processing:
  assumes "validateVideoGeneration b = []" and "store_ok e"
    and "db_uuid e \<notin> gen_id ` set (video_generations d)"
    and "truthy (api_token e)"
    and "predictions_create e (replicateInput (inputData b)) = Inr p"
  shows "fst (generate e b d) = \<lparr>code = 201, body = Started (db_uuid e) PROCESSING\<rparr> \<and>
         video_generations (fst (snd (generate e b d))) =
           video_generations d @
             [(new_row e b)\<lparr>external_id := Some (p_id p), status := PROCESSING\<rparr>] \<and>
         duration (new_row e b) = (case b_duration b of None \<Rightarrow> 5 | Some n \<Rightarrow> n) \<and>
         aspect_ratio (new_row e b) = (case b_aspect_ratio b of None \<Rightarrow> ''16:9'' | Some a \<Rightarrow> a) \<and>
         resolution (new_row e b) = (case b_resolution b of None \<Rightarrow> ''720p'' | Some r \<Rightarrow> r) \<and>
         snd (snd (generate e b d)) =
           [(PredictionsCreate replicate_model
               \<lparr>ri_prompt = sanitize_prompt (b_prompt b),
                ri_duration = (case b_duration b of None \<Rightarrow> 5 | Some n \<Rightarrow> n),
                ri_aspect_ratio = (case b_aspect_ratio b of None \<Rightarrow> ''16:9'' | Some a \<Rightarrow> a),
                ri_resolution = (case b_resolution b of None \<Rightarrow> ''720p'' | Some r \<Rightarrow> r),
                ri_fps = 24, ri_camera_fixed = False, ri_image = truthy_value (b_image b)\<rparr>,
             True)]"
proof -
  let ?inp = "replicateInput (inputData b)"
  have cp: "create_prediction e ?inp = (Inr p, [(PredictionsCreate replicate_model ?inp, True)])"
    using assms(4,5) by (simp add: create_prediction_def getReplicateClient_def)
  have run: "generate e b d =
      (\<lparr>code = 201, body = Started (db_uuid e) PROCESSING\<rparr>, fst (snd (generate e b d)),
       [(PredictionsCreate replicate_model ?inp, True)])"
    using generate_run(1)[OF assms(1-3)] cp by simp
  have a: "fst (generate e b d) = \<lparr>code = 201, body = Started (db_uuid e) PROCESSING\<rparr>"
    using run by (metis fst_conv)
  have t: "snd (snd (generate e b d)) = [(PredictionsCreate replicate_model ?inp, True)]"
    using run by (metis snd_conv)
  have rows: "video_generations (fst (snd (generate e b d))) =
      video_generations d @ [(new_row e b)\<lparr>external_id := Some (p_id p), status := PROCESSING\<rparr>]"
    using generate_run(2)[OF assms(1-3)] cp by simp
  have du: "duration (new_row e b) = (case b_duration b of None \<Rightarrow> 5 | Some n \<Rightarrow> n)"
    using valid_duration[OF assms(1)] by (simp add: new_row_def)
  have ar: "aspect_ratio (new_row e b) = (case b_aspect_ratio b of None \<Rightarrow> ''16:9'' | Some a \<Rightarrow> a)"
    using valid_aspect_ratio[OF assms(1)] by (simp add: new_row_def)
  have re: "resolution (new_row e b) = (case b_resolution b of None \<Rightarrow> ''720p'' | Some r \<Rightarrow> r)"
    using valid_resolution[OF assms(1)] by (simp add: new_row_def)
  show ?thesis
    using a rows du ar re t replicateInput_valid[OF assms(1)] by simp
qed

theorem accepted_submission_is_processing_witness:
  "validateVideoGeneration sample_body = [] \<and> store_ok sample_env \<and>
   fst (generate sample_env sample_body empty_db) =
     \<lparr>code = 201, body = Started ''job-1'' PROCESSING\<rparr> \<and>
   map (\<lambda>r. (status r, external_id r, duration r, aspect_ratio r, resolution r))
     (video_generations (fst (snd (generate sample_env sample_body empty_db)))) =
     [(PROCESSING, Some ''pred-1'', 10, ''9:16'', ''1080p'')]"
proof -
  have v: "validateVideoGeneration sample_body = []" by (rule sample_body_valid)
  have ok: "store_ok sample_env" by (simp add: store_ok_def sample_env_def)
  have fresh: "db_uuid sample_env \<notin> gen_id ` set (video_generations empty_db)"
    by (simp add: empty_db_def)
  have tok: "truthy (api_token sample_env)" by (simp add: truthy_def sample_env_def)
  have acc: "predictions_create sample_env (replicateInput (inputData sample_body)) = Inr sample_prediction"
    by (simp add: sample_env_def)
  from accepted_submission_is_processing[OF v ok fresh tok acc] v ok
  show ?thesis by (simp add: sample_defs)
qed




section \<open>Reconciliation, cancellation and deletion\<close>

lemma filter_map_same:
  "(\<And>r. gen_id (f r) = gen_id r) \<Longrightarrow>
   filter (\<lambda>r. gen_id r = i) (map (\<lambda>r. if gen_id r = i then f r else r) xs) =
   map f (filter (\<lambda>r. gen_id r = i) xs)"
  by (induction xs) auto

lemma stored_update:
  "stored d i g \<Longrightarrow> (\<And>r. gen_id (f r) = gen_id r) \<Longrightarrow>
   stored (snd (update_generation None i f d)) i (f g)"
  by (simp add: stored_def rows_with_def update_generation_def filter_map_same)

lemma sample_stored: "stored (sample_db s x) ''job-1'' (sample_row s x)"
  by (simp add: stored_def rows_with_def sample_db_def sample_row_def new_row_def sample_env_def)

lemma sample_row_fields:
  "status (sample_row s x) = s" "external_id (sample_row s x) = x" "gen_id (sample_row s x) = ''job-1''"
  by (simp_all add: sample_row_def new_row_def sample_env_def)






text \<open>
  Claim C6. A cancellation is answered with status 404 when no row has the
  identifier; with status 400, the store and the provider untouched, when the
  stored job is not \<open>processing\<close>; otherwise, the store answering, with status 200,
  the identifier and the status \<open>cancelled\<close>, the row being set to \<open>cancelled\<close> whatever
  the provider answered to the cancellation, if it was asked at all.
\<close>

theorem cancel_contract:
  "(rows_with d i = [] \<longrightarrow>
      cancel e i d = (\<lparr>code = 404, body = ErrorOnly ''Video generation not found''\<rparr>, d, [])) \<and>
   (stored d i g \<and> db_error e 0 = None \<and> status g \<noteq> PROCESSING \<longrightarrow>
      cancel e i d =
        (\<lparr>code = 400, body = ErrorOnly ''Can only cancel processing generations''\<rparr>, d, [])) \<and>
   (stored d i g \<and> db_error e 0 = None \<and> db_error e 1 = None \<and> status g = PROCESSING \<longrightarrow>
      fst (cancel e i d) = \<lparr>code = 200, body = CancelledOk i CANCELLED\<rparr> \<and>
      stored (fst (snd (cancel e i d))) i (g\<lparr>status := CANCELLED\<rparr>) \<and>
      snd (snd (cancel e i d)) =
        (case truthy_value (external_id g) of
           None \<Rightarrow> []
         | Some x \<Rightarrow> snd (cancelGeneration e x)))"
proof (intro conjI impI)
  assume "rows_with d i = []"
  then have "\<exists>m. select_single (db_error e 0) i d = Inl m"
    by (simp add: select_single_def rows_with_def split: option.splits)
  then show "cancel e i d = (\<lparr>code = 404, body = ErrorOnly ''Video generation not found''\<rparr>, d, [])"
    by (auto simp: cancel_def)
next
  assume "stored d i g \<and> db_error e 0 = None \<and> status g \<noteq> PROCESSING"
  then show "cancel e i d =
        (\<lparr>code = 400, body = ErrorOnly ''Can only cancel processing generations''\<rparr>, d, [])"
    using cancel_not_processing[of d i g e] by simp
next
  assume a: "stored d i g \<and> db_error e 0 = None \<and> db_error e 1 = None \<and> status g = PROCESSING"
  then have sel: "select_single (db_error e 0) i d = Inr g"
    using select_single_stored[of d i g "db_error e 0"] by simp
  define D where "D = snd (update_generation None i (\<lambda>r. r\<lparr>status := CANCELLED\<rparr>) d)"
  have up: "update_generation (db_error e 1) i (\<lambda>r. r\<lparr>status := CANCELLED\<rparr>) d = (None, D)"
    using a by (simp add: update_generation_def D_def)
  have st: "stored D i (g\<lparr>status := CANCELLED\<rparr>)"
    unfolding D_def
    using stored_update[of d i g "\<lambda>r. r\<lparr>status := CANCELLED\<rparr>"] a by simp
  show "fst (cancel e i d) = \<lparr>code = 200, body = CancelledOk i CANCELLED\<rparr>"
    using a sel up by (simp add: cancel_def Let_def)
  show "stored (fst (snd (cancel e i d))) i (g\<lparr>status := CANCELLED\<rparr>)"
    using a sel up st by (simp add: cancel_def Let_def)
  show "snd (snd (cancel e i d)) =
        (case truthy_value (external_id g) of None \<Rightarrow> [] | Some x \<Rightarrow> snd (cancelGeneration e x))"
    using a sel up by (simp add: cancel_def Let_def)
qed

theorem cancel_contract_witness:
  "cancel sample_env ''job-1'' empty_db =
     (\<lparr>code = 404, body = ErrorOnly ''Video generation not found''\<rparr>, empty_db, []) \<and>
   cancel sample_env ''job-1'' (sample_db FAILED None) =
     (\<lparr>code = 400, body = ErrorOnly ''Can only cancel processing generations''\<rparr>,
      sample_db FAILED None, []) \<and>
   fst (cancel cancel_timeout_env ''job-1''
          (sample_db PROCESSING (Some ''pred-1''))) =
     \<lparr>code = 200, body = CancelledOk ''job-1'' CANCELLED\<rparr> \<and>
   stored (fst (snd (cancel cancel_timeout_env ''job-1''
                       (sample_db PROCESSING (Some ''pred-1'')))))
     ''job-1'' (sample_row CANCELLED (Some ''pred-1'')) \<and>
   snd (snd (cancel cancel_timeout_env ''job-1''
               (sample_db PROCESSING (Some ''pred-1'')))) =
     [(PredictionsCancel ''pred-1'', False)]"
proof -
  let ?e = "cancel_timeout_env"
  have r0: "rows_with empty_db ''job-1'' = []" by (simp add: rows_with_def empty_db_def)
  have e0: "db_error sample_env 0 = None" and f0: "db_error ?e 0 = None" and f1: "db_error ?e 1 = None"
    by (simp_all add: sample_env_def cancel_timeout_env_def)
  have s1: "status (sample_row FAILED None) \<noteq> PROCESSING"
    and s2: "status (sample_row PROCESSING (Some ''pred-1'')) = PROCESSING"
    by (simp_all add: sample_row_fields)
  have c: "snd (cancelGeneration ?e ''pred-1'') = [(PredictionsCancel ''pred-1'', False)]"
    by (simp add: cancelGeneration_def getReplicateClient_def truthy_def sample_env_def cancel_timeout_env_def)
  have u: "(sample_row PROCESSING (Some ''pred-1''))\<lparr>status := CANCELLED\<rparr> = sample_row CANCELLED (Some ''pred-1'')"
    by (simp add: sample_row_def)
  from cancel_contract[of empty_db "''job-1''" sample_env] r0
  have a: "cancel sample_env ''job-1'' empty_db =
     (\<lparr>code = 404, body = ErrorOnly ''Video generation not found''\<rparr>, empty_db, [])"
    by blast
  from cancel_contract[of "sample_db FAILED None" "''job-1''" sample_env "sample_row FAILED None"]
    sample_stored[of FAILED None] e0 s1
  have b: "cancel sample_env ''job-1'' (sample_db FAILED None) =
     (\<lparr>code = 400, body = ErrorOnly ''Can only cancel processing generations''\<rparr>,
      sample_db FAILED None, [])"
    by blast
  from cancel_contract[of "sample_db PROCESSING (Some ''pred-1'')" "''job-1''" ?e
        "sample_row PROCESSING (Some ''pred-1'')"]
    sample_stored[of PROCESSING "Some ''pred-1''"] f0 f1 s2
  have "fst (cancel ?e ''job-1'' (sample_db PROCESSING (Some ''pred-1''))) =
       \<lparr>code = 200, body = CancelledOk ''job-1'' CANCELLED\<rparr> \<and>
     stored (fst (snd (cancel ?e ''job-1'' (sample_db PROCESSING (Some ''pred-1''))))) ''job-1''
       ((sample_row PROCESSING (Some ''pred-1''))\<lparr>status := CANCELLED\<rparr>) \<and>
     snd (snd (cancel ?e ''job-1'' (sample_db PROCESSING (Some ''pred-1'')))) =
       (case truthy_value (external_id (sample_row PROCESSING (Some ''pred-1''))) of
          None \<Rightarrow> [] | Some x \<Rightarrow> snd (cancelGeneration ?e x))"
    by blast
  then have d: "fst (cancel ?e ''job-1'' (sample_db PROCESSING (Some ''pred-1''))) =
       \<lparr>code = 200, body = CancelledOk ''job-1'' CANCELLED\<rparr> \<and>
     stored (fst (snd (cancel ?e ''job-1'' (sample_db PROCESSING (Some ''pred-1''))))) ''job-1''
       (sample_row CANCELLED (Some ''pred-1'')) \<and>
     snd (snd (cancel ?e ''job-1'' (sample_db PROCESSING (Some ''pred-1'')))) =
       [(PredictionsCancel ''pred-1'', False)]"
    using c u by (simp add: sample_row_fields truthy_value_def)
  show ?thesis using a b d by blast
qed

text \<open>
  Claim C10. The deletion never calls the provider. For a stored job of any status,
  \<open>processing\<close> included, the store answering, it is answered with status 200 and
  the identifier, and no row with that identifier remains; the other rows stay.
\<close>

theorem delete_contract:
  "snd (snd (delete e i d)) = [] \<and>
   (stored d i g \<and> db_error e 0 = None \<and> db_error e 1 = None \<longrightarrow>
      fst (delete e i d) = \<lparr>code = 200, body = DeletedOk i\<rparr> \<and>
      video_generations (fst (snd (delete e i d))) =
        filter (\<lambda>r. gen_id r \<noteq> i) (video_generations d) \<and>
      rows_with (fst (snd (delete e i d))) i = [])"
proof (intro conjI impI)
  show "snd (snd (delete e i d)) = []"
    by (simp add: delete_def split: sum.splits prod.splits option.splits)
next
  assume a: "stored d i g \<and> db_error e 0 = None \<and> db_error e 1 = None"
  then have sel: "select_single (db_error e 0) i d = Inr g"
    using select_single_stored[of d i g "db_error e 0"] by simp
  show "fst (delete e i d) = \<lparr>code = 200, body = DeletedOk i\<rparr>"
    using a sel by (simp add: delete_def delete_generation_def)
  show "video_generations (fst (snd (delete e i d))) =
        filter (\<lambda>r. gen_id r \<noteq> i) (video_generations d)"
    using a sel by (simp add: delete_def delete_generation_def)
  show "rows_with (fst (snd (delete e i d))) i = []"
    using a sel by (simp add: delete_def delete_generation_def rows_with_def)
qed

theorem delete_contract_witness:
  "stored (sample_db PROCESSING (Some ''pred-1'')) ''job-1'' (sample_row PROCESSING (Some ''pred-1'')) \<and>
   delete sample_env ''job-1'' (sample_db PROCESSING (Some ''pred-1'')) =
     (\<lparr>code = 200, body = DeletedOk ''job-1''\<rparr>,
      (sample_db PROCESSING (Some ''pred-1''))\<lparr>video_generations := []\<rparr>, [])"
proof -
  let ?d = "sample_db PROCESSING (Some ''pred-1'')"
  have e0: "db_error sample_env 0 = None" and e1: "db_error sample_env 1 = None"
    by (simp_all add: sample_env_def)
  from delete_contract[of sample_env "''job-1''" ?d "sample_row PROCESSING (Some ''pred-1'')"]
    sample_stored[of PROCESSING "Some ''pred-1''"] e0 e1
  have a: "snd (snd (delete sample_env ''job-1'' ?d)) = [] \<and>
      fst (delete sample_env ''job-1'' ?d) = \<lparr>code = 200, body = DeletedOk ''job-1''\<rparr> \<and>
      video_generations (fst (snd (delete sample_env ''job-1'' ?d))) =
        filter (\<lambda>r. gen_id r \<noteq> ''job-1'') (video_generations ?d)"
    by blast
  have u: "users (fst (snd (delete sample_env ''job-1'' ?d))) = users ?d"
    by (simp add: delete_def delete_generation_def split: sum.splits option.splits)
  have f: "filter (\<lambda>r. gen_id r \<noteq> ''job-1'') (video_generations ?d) = []"
    by (simp add: sample_db_def sample_row_fields)
  have "fst (snd (delete sample_env ''job-1'' ?d)) = ?d\<lparr>video_generations := []\<rparr>"
    using a u f by simp
  then show ?thesis using a sample_stored[of PROCESSING "Some ''pred-1''"] by (simp add: prod_eq_iff)
qed

section \<open>Validation of a submission\<close>














section \<open>Listing\<close>

text \<open>
  Claim C9 asks for the rows at positions \<open>(p - 1) * l\<close> to \<open>p * l - 1\<close> of the jobs by
  creation time, newest first. With both parameters in the query string, \<^verbatim>\<open>limit\<close>
  is a string when \<^verbatim>\<open>offset + limit - 1\<close> is computed, so the sum concatenates. On
  three jobs, page 1 of limit 1 is the newest job, as claimed; page 2 of limit 1 asks
  for the range 1 to 10 and returns both remaining jobs, where the claim has the one
  at position 1.
\<close>

theorem list_second_page_overruns:
  "by_created_desc (video_generations three_jobs_db) =
     [job ''job-3'' 3, job ''job-2'' 2, job ''job-1'' 1] \<and>
   list_generations sample_env \<lparr>q_page = Some ''1'', q_limit = Some ''1''\<rparr> three_jobs_db =
     (\<lparr>code = 200,
       body = Listing [job ''job-3'' 3]
                \<lparr>pg_page = Some 1, pg_limit = Some 1, pg_total = 3, pg_pages = Some 3\<rparr>\<rparr>,
      three_jobs_db, []) \<and>
   list_generations sample_env \<lparr>q_page = Some ''2'', q_limit = Some ''1''\<rparr> three_jobs_db =
     (\<lparr>code = 200,
       body = Listing [job ''job-2'' 2, job ''job-1'' 1]
                \<lparr>pg_page = Some 2, pg_limit = Some 1, pg_total = 3, pg_pages = Some 3\<rparr>\<rparr>,
      three_jobs_db, [])"
proof -
  have s: "by_created_desc (video_generations three_jobs_db) =
      [job ''job-3'' 3, job ''job-2'' 2, job ''job-1'' 1]"
    by (simp add: by_created_desc_def three_jobs_db_def job_def)
  have n1: "to_number ''1'' = Some 1" and n2: "to_number ''2'' = Some 2"
    and n11: "to_number ''11'' = Some 11" and n01: "to_number ''01'' = Some 1"
    by (simp_all add: to_number_def is_digit_def digits_value_def)
  have d0: "to_string 0 = ''0''" and d1: "to_string 1 = ''1''"
    by code_simp+
  have e: "db_error sample_env 0 = None" by (simp add: sample_env_def)
  have l: "length (video_generations three_jobs_db) = 3" by (simp add: three_jobs_db_def)
  have p1: "list_generations sample_env \<lparr>q_page = Some ''1'', q_limit = Some ''1''\<rparr> three_jobs_db =
     (\<lparr>code = 200,
       body = Listing [job ''job-3'' 3]
                \<lparr>pg_page = Some 1, pg_limit = Some 1, pg_total = 3, pg_pages = Some 3\<rparr>\<rparr>,
      three_jobs_db, [])"
    by (simp add: list_generations_def Let_def js_times_def js_minus_def js_plus_def js_number_def
          num_string_def parse_int_def ceil_div_def select_range_def n1 n01 d0 e s l)
  have p2: "list_generations sample_env \<lparr>q_page = Some ''2'', q_limit = Some ''1''\<rparr> three_jobs_db =
     (\<lparr>code = 200,
       body = Listing [job ''job-2'' 2, job ''job-1'' 1]
                \<lparr>pg_page = Some 2, pg_limit = Some 1, pg_total = 3, pg_pages = Some 3\<rparr>\<rparr>,
      three_jobs_db, [])"
    by (simp add: list_generations_def Let_def js_times_def js_minus_def js_plus_def js_number_def
          num_string_def parse_int_def ceil_div_def select_range_def n1 n2 n11 d1 e s l)
  show ?thesis using s p1 p2 by blast
qed

section \<open>The external identifier in reachable states\<close>




















end
